theory Spec2Isabelle
  imports Main
begin

section \<open>Data model of the DNS record client\<close>

text \<open>
  The struct \<open>RecordBody\<close>. Go's \<open>int\<close> is read as a mathematical integer: no
  arithmetic is performed on \<open>TTL\<close>, only a comparison with zero. A nil slice and an empty
  slice both have length 0 and are both the empty list. The operations receive a
  \<open>*RecordBody\<close>; the model passes the struct it points to.
\<close>

record RecordBody =
  Name :: string
  RecordType :: string
  TTL :: int
  Active :: bool
  Target :: "string list"

text \<open>
  Go error values. \<open>None\<close> of type \<open>error option\<close> is the nil error.
  \<^item> \<open>ValidationErrors\<close>: a non-empty \<open>validation.Errors\<close>, field name and message;
  \<^item> \<open>Errorf fmt cause\<close>: \<open>fmt.Errorf(fmt, cause)\<close> with a \<open>%w\<close> verb, wrapping the cause;
  \<^item> \<open>APIError status\<close>: \<open>session.NewAPIError(resp, logger)\<close>, built from the response;
  \<^item> \<open>Cause\<close>: an error produced by a collaborator outside this package.
\<close>

datatype error =
    ValidationErrors "(string \<times> string) list"
  | Errorf string error
  | APIError int
  | Cause string

record request =
  Method :: string
  URL :: string
  Body :: "string option"

record response =
  StatusCode :: int

text \<open>
  What the functions use and this package does not define: \<open>Exec\<close> of the embedded
  session, the package helper \<open>convertStructToReqBody\<close> and \<open>http.NewRequestWithContext\<close>.
  They are parameters of the model.
\<close>

record env =
  Exec :: "request \<Rightarrow> error + response"
  convertStructToReqBody :: "RecordBody \<Rightarrow> error + string"
  NewRequestWithContext :: "string \<Rightarrow> string \<Rightarrow> string option \<Rightarrow> error + request"

section \<open>The process state: the write lock and what the calls did\<close>

datatype level = Debug | Error

datatype event =
    Locked
  | Unlocked
  | Logged level string
  | Executed request

text \<open>
  \<open>held\<close> is the state of \<open>zoneRecordWriteLock\<close>; \<open>trace\<close> lists, oldest first, the lock
  operations, the logger calls and the requests handed to \<open>Exec\<close>.
\<close>

record world =
  held :: bool
  trace :: "event list"

text \<open>
  A call either returns, or waits for ever on a mutex that is held (a sequential caller
  has nobody to release it), or stops the program (unlocking a mutex that is not locked
  is a fatal runtime error).
\<close>

datatype 'a outcome = Returns 'a | Blocks | Fatal

definition record_event :: "event \<Rightarrow> world \<Rightarrow> world" where
  "record_event e w = w\<lparr>trace := trace w @ [e]\<rparr>"

definition Lock :: "world \<Rightarrow> world outcome" where
  "Lock w = (if held w then Blocks else Returns (record_event Locked (w\<lparr>held := True\<rparr>)))"

definition Unlock :: "world \<Rightarrow> world outcome" where
  "Unlock w = (if held w then Returns (record_event Unlocked (w\<lparr>held := False\<rparr>)) else Fatal)"

definition Log :: "level \<Rightarrow> string \<Rightarrow> world \<Rightarrow> world" where
  "Log l msg w = record_event (Logged l msg) w"

section \<open>Validate\<close>

text \<open>
  \<open>validation.Required\<close> of ozzo-validation rejects the empty value of the argument's
  kind with the message below: a string or slice of length 0, an integer equal to 0.
  \<open>validation.Validate(v, Required)\<close> returns that rule's error or nil.
\<close>

definition ErrRequired :: string where
  "ErrRequired = ''cannot be blank''"

definition Required_string :: "string \<Rightarrow> string option" where
  "Required_string v = (if length v = 0 then Some ErrRequired else None)"

definition Required_int :: "int \<Rightarrow> string option" where
  "Required_int v = (if v = 0 then Some ErrRequired else None)"

definition Required_slice :: "'a list \<Rightarrow> string option" where
  "Required_slice v = (if length v = 0 then Some ErrRequired else None)"

text \<open>
  \<open>Errors.Filter\<close> deletes the entries whose error is nil and returns nil when nothing
  is left, the remaining entries otherwise. The entries are kept in the order of the
  composite literal.
\<close>

definition Filter :: "(string \<times> string option) list \<Rightarrow> error option" where
  "Filter es =
     (let kept = List.map_filter (\<lambda>(k, v). case v of None \<Rightarrow> None | Some m \<Rightarrow> Some (k, m)) es
      in if length kept = 0 then None else Some (ValidationErrors kept))"

definition Validate :: "RecordBody \<Rightarrow> error option" where
  "Validate rec =
     Filter [(''Name'', Required_string (Name rec)),
             (''RecordType'', Required_string (RecordType rec)),
             (''TTL'', Required_int (TTL rec)),
             (''Target'', Required_slice (Target rec))]"

section \<open>Method values\<close>

text \<open>
  A Go function value is nil or a function. The expression \<open>record.Validate\<close>, without
  the call parentheses, is a method value: the method bound to its receiver. It is a
  function, never nil, and evaluating it does not run the method.
\<close>

type_synonym 'a func = "(unit \<Rightarrow> 'a) option"

definition method_value :: "('r \<Rightarrow> 'a) \<Rightarrow> 'r \<Rightarrow> 'a func" where
  "method_value m r = Some (\<lambda>_. m r)"

definition is_nil :: "'a func \<Rightarrow> bool" where
  "is_nil f = (case f of None \<Rightarrow> True | Some _ \<Rightarrow> False)"

section \<open>RecordToMap and NewRecordBody\<close>

datatype field_value =
    VString string
  | VInt int
  | VBool bool
  | VStrings "string list"

definition RecordToMap :: "RecordBody \<Rightarrow> world \<Rightarrow> (string \<rightharpoonup> field_value) option \<times> world" where
  "RecordToMap record w =
     (let w1 = Log Debug ''RecordToMap'' w;
          err = method_value Validate record
      in if \<not> is_nil err then (None, Log Error ''Record to map failed. %w'' w1)
         else (Some [''name'' \<mapsto> VString (Name record),
                     ''ttl'' \<mapsto> VInt (TTL record),
                     ''recordtype'' \<mapsto> VString (RecordType record),
                     ''active'' \<mapsto> VBool (Active record),
                     ''target'' \<mapsto> VStrings (Target record)], w1))"

definition NewRecordBody :: "RecordBody \<Rightarrow> world \<Rightarrow> RecordBody \<times> world" where
  "NewRecordBody params w =
     (let w1 = Log Debug ''NewRecordBody'' w;
          recordbody = \<lparr>Name = Name params, RecordType = [], TTL = 0, Active = False,
                        Target = []\<rparr>
      in (recordbody, w1))"

section \<open>The mutating operations\<close>

text \<open>The loop of \<open>localLock\<close> returns in its first iteration.\<close>

fun localLock :: "bool list \<Rightarrow> bool" where
  "localLock (lock # _) = lock"
| "localLock [] = True"

text \<open>
  The first statement of each operation:
  \<^verbatim>\<open>if localLock(recLock) { zoneRecordWriteLock.Lock(); defer zoneRecordWriteLock.Unlock() }\<close>
  The deferred \<open>Unlock\<close> runs when the function returns, after the rest of its body.
\<close>

definition with_write_lock :: "bool list \<Rightarrow> (world \<Rightarrow> 'a \<times> world) \<Rightarrow> world \<Rightarrow> ('a \<times> world) outcome" where
  "with_write_lock recLock body w =
     (if localLock recLock then
        (case Lock w of
           Returns w1 \<Rightarrow>
             (case body w1 of
                (r, w2) \<Rightarrow>
                  (case Unlock w2 of
                     Returns w3 \<Rightarrow> Returns (r, w3)
                   | Blocks \<Rightarrow> Blocks
                   | Fatal \<Rightarrow> Fatal))
         | Blocks \<Rightarrow> Blocks
         | Fatal \<Rightarrow> Fatal)
      else Returns (body w))"

definition record_path :: "string \<Rightarrow> RecordBody \<Rightarrow> string" where
  "record_path zone record =
     ''/config-dns/v2/zones/'' @ zone @ ''/names/'' @ Name record @ ''/types/'' @ RecordType record"

text \<open>
  The part of each operation after its validation guard: build the request, hand it to
  \<open>Exec\<close>, compare the status with the one expected.
\<close>

definition send :: "env \<Rightarrow> string \<Rightarrow> request \<Rightarrow> int \<Rightarrow> world \<Rightarrow> error option \<times> world" where
  "send p failed req expected w =
     (let w1 = record_event (Executed req) w
      in case Exec p req of
           Inl err \<Rightarrow> (Some (Errorf failed err), w1)
         | Inr resp \<Rightarrow>
             if StatusCode resp \<noteq> expected then (Some (APIError (StatusCode resp)), w1)
             else (None, w1))"

definition CreateRecord_request :: "env \<Rightarrow> RecordBody \<Rightarrow> string \<Rightarrow> world \<Rightarrow> error option \<times> world" where
  "CreateRecord_request p record zone w =
     (case convertStructToReqBody p record of
        Inl err \<Rightarrow> (Some (Errorf ''failed to generate request body: %w'' err), w)
      | Inr reqbody \<Rightarrow>
          (case NewRequestWithContext p ''POST'' (record_path zone record) (Some reqbody) of
             Inl err \<Rightarrow> (Some (Errorf ''failed to create CreateRecord request: %w'' err), w)
           | Inr req \<Rightarrow> send p ''CreateRecord request failed: %w'' req 201 w))"

definition UpdateRecord_request :: "env \<Rightarrow> RecordBody \<Rightarrow> string \<Rightarrow> world \<Rightarrow> error option \<times> world" where
  "UpdateRecord_request p record zone w =
     (case convertStructToReqBody p record of
        Inl err \<Rightarrow> (Some (Errorf ''failed to generate request body: %w'' err), w)
      | Inr reqbody \<Rightarrow>
          (case NewRequestWithContext p ''PUT'' (record_path zone record) (Some reqbody) of
             Inl err \<Rightarrow> (Some (Errorf ''failed to create UpdateRecord request: %w'' err), w)
           | Inr req \<Rightarrow> send p ''UpdateRecord request failed: %w'' req 200 w))"

definition DeleteRecord_request :: "env \<Rightarrow> RecordBody \<Rightarrow> string \<Rightarrow> world \<Rightarrow> error option \<times> world" where
  "DeleteRecord_request p record zone w =
     (case NewRequestWithContext p ''DELETE'' (record_path zone record) None of
        Inl err \<Rightarrow> (Some (Errorf ''failed to create DeleteRecord request: %w'' err), w)
      | Inr req \<Rightarrow> send p ''DeleteRecord request failed: %w'' req 204 w)"

text \<open>
  The body of each operation below its lock statement. The guard reads
  \<^verbatim>\<open>if err := record.Validate; err != nil { logger.Errorf(...); return nil }\<close>
  so \<open>err\<close> is the method value.
\<close>

definition CreateRecord_body :: "env \<Rightarrow> RecordBody \<Rightarrow> string \<Rightarrow> world \<Rightarrow> error option \<times> world" where
  "CreateRecord_body p record zone w =
     (let w1 = Log Debug ''CreateRecord'' w;
          err = method_value Validate record
      in if \<not> is_nil err then (None, Log Error ''Record content not vaiid: %w'' w1)
         else CreateRecord_request p record zone w1)"

definition UpdateRecord_body :: "env \<Rightarrow> RecordBody \<Rightarrow> string \<Rightarrow> world \<Rightarrow> error option \<times> world" where
  "UpdateRecord_body p record zone w =
     (let w1 = Log Debug ''UpdateRecord'' w;
          err = method_value Validate record
      in if \<not> is_nil err then (None, Log Error ''Record content not vaiid: %w'' w1)
         else UpdateRecord_request p record zone w1)"

definition DeleteRecord_body :: "env \<Rightarrow> RecordBody \<Rightarrow> string \<Rightarrow> world \<Rightarrow> error option \<times> world" where
  "DeleteRecord_body p record zone w =
     (let w1 = Log Debug ''DeleteRecord'' w;
          err = method_value Validate record
      in if \<not> is_nil err then (None, Log Error ''Record content not vaiid: %w'' w1)
         else DeleteRecord_request p record zone w1)"

definition CreateRecord :: "env \<Rightarrow> RecordBody \<Rightarrow> string \<Rightarrow> bool list \<Rightarrow> world \<Rightarrow> (error option \<times> world) outcome" where
  "CreateRecord p record zone recLock w = with_write_lock recLock (CreateRecord_body p record zone) w"

definition UpdateRecord :: "env \<Rightarrow> RecordBody \<Rightarrow> string \<Rightarrow> bool list \<Rightarrow> world \<Rightarrow> (error option \<times> world) outcome" where
  "UpdateRecord p record zone recLock w = with_write_lock recLock (UpdateRecord_body p record zone) w"

definition DeleteRecord :: "env \<Rightarrow> RecordBody \<Rightarrow> string \<Rightarrow> bool list \<Rightarrow> world \<Rightarrow> (error option \<times> world) outcome" where
  "DeleteRecord p record zone recLock w = with_write_lock recLock (DeleteRecord_body p record zone) w"

section \<open>Concrete inputs\<close>

text \<open>
  A session double that answers every request with a fixed reply, a serializer and a
  request constructor that succeed, the record of the end-to-end scenario, and a process
  in which the lock is free and nothing has happened.
\<close>

definition session_double :: "error + response \<Rightarrow> env" where
  "session_double reply =
     \<lparr>Exec = (\<lambda>_. reply),
      convertStructToReqBody = (\<lambda>r. Inr (Name r)),
      NewRequestWithContext = (\<lambda>m u b. Inr \<lparr>Method = m, URL = u, Body = b\<rparr>)\<rparr>"

definition replies :: "int \<Rightarrow> env" where
  "replies status = session_double (Inr \<lparr>StatusCode = status\<rparr>)"

definition unreachable :: env where
  "unreachable = session_double (Inl (Cause ''connection refused''))"

definition www :: RecordBody where
  "www = \<lparr>Name = ''www.example.com'', RecordType = ''A'', TTL = 300, Active = False,
          Target = [''192.0.2.1'']\<rparr>"

definition idle :: world where
  "idle = \<lparr>held = False, trace = []\<rparr>"

text \<open>A process in which somebody else holds the lock.\<close>

definition busy :: world where
  "busy = \<lparr>held = True, trace = []\<rparr>"

definition nameless :: RecordBody where
  "nameless = www\<lparr>Name := []\<rparr>"

section \<open>The validation guard\<close>

lemma method_value_not_nil: "is_nil (method_value m r) = False"
  by (simp add: is_nil_def method_value_def)

lemma CreateRecord_body_guard:
  "CreateRecord_body p record zone w =
     (None, Log Error ''Record content not vaiid: %w'' (Log Debug ''CreateRecord'' w))"
  by (simp add: CreateRecord_body_def method_value_not_nil)

lemma UpdateRecord_body_guard:
  "UpdateRecord_body p record zone w =
     (None, Log Error ''Record content not vaiid: %w'' (Log Debug ''UpdateRecord'' w))"
  by (simp add: UpdateRecord_body_def method_value_not_nil)

lemma DeleteRecord_body_guard:
  "DeleteRecord_body p record zone w =
     (None, Log Error ''Record content not vaiid: %w'' (Log Debug ''DeleteRecord'' w))"
  by (simp add: DeleteRecord_body_def method_value_not_nil)

lemmas Validate_defs =
  Validate_def Filter_def Required_string_def Required_int_def Required_slice_def
  ErrRequired_def List.map_filter_def

lemma Validate_www: "Validate www = None"
  by (simp add: Validate_defs www_def)

lemma Validate_nameless:
  "Validate nameless = Some (ValidationErrors [(''Name'', ''cannot be blank'')])"
  by (simp add: Validate_defs nameless_def www_def)

section \<open>The code below the guard\<close>

text \<open>
  What the three operations would do with the reply of the session if control passed the
  guard: nil for the expected status and an \<open>APIError\<close> with the status otherwise, the
  cause wrapped by \<open>fmt.Errorf\<close> when \<open>Exec\<close> fails, one request handed to \<open>Exec\<close>.
\<close>

lemma send_status:
  "Exec p req = Inr resp \<Longrightarrow>
   send p failed req expected w =
     (if StatusCode resp = expected then None else Some (APIError (StatusCode resp)),
      record_event (Executed req) w)"
  by (simp add: send_def)

lemma send_transport_error:
  "Exec p req = Inl cause \<Longrightarrow>
   send p failed req expected w = (Some (Errorf failed cause), record_event (Executed req) w)"
  by (simp add: send_def)

lemma CreateRecord_request_replies:
  "fst (CreateRecord_request (replies status) record zone w) =
     (if status = 201 then None else Some (APIError status))"
  by (simp add: CreateRecord_request_def replies_def session_double_def send_def)

lemma UpdateRecord_request_replies:
  "fst (UpdateRecord_request (replies status) record zone w) =
     (if status = 200 then None else Some (APIError status))"
  by (simp add: UpdateRecord_request_def replies_def session_double_def send_def)

lemma DeleteRecord_request_replies:
  "fst (DeleteRecord_request (replies status) record zone w) =
     (if status = 204 then None else Some (APIError status))"
  by (simp add: DeleteRecord_request_def replies_def session_double_def send_def)

lemma CreateRecord_request_unreachable:
  "fst (CreateRecord_request unreachable record zone w) =
     Some (Errorf ''CreateRecord request failed: %w'' (Cause ''connection refused''))"
  by (simp add: CreateRecord_request_def unreachable_def session_double_def send_def)

section \<open>The write lock\<close>

lemma held_record_event: "held (record_event e w) = held w"
  by (simp add: record_event_def)

lemma held_Log: "held (Log l msg w) = held w"
  by (simp add: Log_def held_record_event)

lemma held_send: "held (snd (send p failed req expected w)) = held w"
  by (simp add: send_def Let_def held_record_event split: sum.split)

lemma held_CreateRecord_request:
  "held (snd (CreateRecord_request p record zone w)) = held w"
  by (simp add: CreateRecord_request_def held_send split: sum.split)

lemma held_UpdateRecord_request:
  "held (snd (UpdateRecord_request p record zone w)) = held w"
  by (simp add: UpdateRecord_request_def held_send split: sum.split)

lemma held_DeleteRecord_request:
  "held (snd (DeleteRecord_request p record zone w)) = held w"
  by (simp add: DeleteRecord_request_def held_send split: sum.split)

text \<open>No path through a body touches the lock, whichever way its guard goes.\<close>

lemma held_CreateRecord_body: "held (snd (CreateRecord_body p record zone w)) = held w"
  by (simp add: CreateRecord_body_def Let_def held_Log held_CreateRecord_request)

lemma held_UpdateRecord_body: "held (snd (UpdateRecord_body p record zone w)) = held w"
  by (simp add: UpdateRecord_body_def Let_def held_Log held_UpdateRecord_request)

lemma held_DeleteRecord_body: "held (snd (DeleteRecord_body p record zone w)) = held w"
  by (simp add: DeleteRecord_body_def Let_def held_Log held_DeleteRecord_request)

text \<open>
  The lock statement with its deferred unlock, around any body that leaves the lock
  alone: the call returns what the body returned, and the lock is free again.
\<close>

lemma with_write_lock_releases:
  assumes flag: "localLock recLock"
    and free: "\<not> held w"
    and body: "\<And>v. held (snd (body v)) = held v"
  shows "\<exists>r w'. with_write_lock recLock body w = Returns (r, w') \<and> \<not> held w'
            \<and> Lock w' \<noteq> Blocks"
proof -
  define w1 where "w1 = record_event Locked (w\<lparr>held := True\<rparr>)"
  obtain r w2 where b: "body w1 = (r, w2)"
    by (cases "body w1")
  have "held w2 = held w1"
    using body [of w1] b by simp
  then have h2: "held w2"
    by (simp add: w1_def held_record_event)
  have l: "Lock w = Returns w1"
    using free by (simp add: Lock_def w1_def)
  have "with_write_lock recLock body w = Returns (r, record_event Unlocked (w2\<lparr>held := False\<rparr>))"
    using flag l b h2 by (simp add: with_write_lock_def Unlock_def)
  then show ?thesis
    by (simp add: Lock_def held_record_event)
qed

text \<open>
  The same holds around the code below the guard, for every session: whether \<open>Exec\<close>
  fails, answers with an unexpected status or with the expected one.
\<close>

lemma with_write_lock_releases_after_request:
  assumes "localLock recLock" and "\<not> held w"
  shows "\<exists>r w'. with_write_lock recLock (CreateRecord_request p record zone) w = Returns (r, w')
            \<and> \<not> held w' \<and> Lock w' \<noteq> Blocks"
    and "\<exists>r w'. with_write_lock recLock (UpdateRecord_request p record zone) w = Returns (r, w')
            \<and> \<not> held w' \<and> Lock w' \<noteq> Blocks"
    and "\<exists>r w'. with_write_lock recLock (DeleteRecord_request p record zone) w = Returns (r, w')
            \<and> \<not> held w' \<and> Lock w' \<noteq> Blocks"
  using assms
  by (simp_all add: with_write_lock_releases held_CreateRecord_request
      held_UpdateRecord_request held_DeleteRecord_request)

text \<open>What a call adds to the trace, with and without the lock.\<close>

lemma with_write_lock_guarded:
  assumes body: "\<And>v. body v = (r, Log Error msg (Log Debug name v))"
    and free: "localLock recLock \<longrightarrow> \<not> held w"
  shows "with_write_lock recLock body w =
           Returns (r, w\<lparr>trace := trace w @
             (if localLock recLock
              then [Locked, Logged Debug name, Logged Error msg, Unlocked]
              else [Logged Debug name, Logged Error msg])\<rparr>)"
  using free
  by (simp add: with_write_lock_def body Lock_def Unlock_def Log_def record_event_def)

lemma CreateRecord_guarded:
  assumes "localLock recLock \<longrightarrow> \<not> held w"
  shows "CreateRecord p record zone recLock w =
           Returns (None, w\<lparr>trace := trace w @
             (if localLock recLock
              then [Locked, Logged Debug ''CreateRecord'',
                    Logged Error ''Record content not vaiid: %w'', Unlocked]
              else [Logged Debug ''CreateRecord'',
                    Logged Error ''Record content not vaiid: %w''])\<rparr>)"
  unfolding CreateRecord_def
  by (rule with_write_lock_guarded) (simp_all add: CreateRecord_body_guard assms)

lemma UpdateRecord_guarded:
  assumes "localLock recLock \<longrightarrow> \<not> held w"
  shows "UpdateRecord p record zone recLock w =
           Returns (None, w\<lparr>trace := trace w @
             (if localLock recLock
              then [Locked, Logged Debug ''UpdateRecord'',
                    Logged Error ''Record content not vaiid: %w'', Unlocked]
              else [Logged Debug ''UpdateRecord'',
                    Logged Error ''Record content not vaiid: %w''])\<rparr>)"
  unfolding UpdateRecord_def
  by (rule with_write_lock_guarded) (simp_all add: UpdateRecord_body_guard assms)

lemma DeleteRecord_guarded:
  assumes "localLock recLock \<longrightarrow> \<not> held w"
  shows "DeleteRecord p record zone recLock w =
           Returns (None, w\<lparr>trace := trace w @
             (if localLock recLock
              then [Locked, Logged Debug ''DeleteRecord'',
                    Logged Error ''Record content not vaiid: %w'', Unlocked]
              else [Logged Debug ''DeleteRecord'',
                    Logged Error ''Record content not vaiid: %w''])\<rparr>)"
  unfolding DeleteRecord_def
  by (rule with_write_lock_guarded) (simp_all add: DeleteRecord_body_guard assms)

section \<open>Claims\<close>

text \<open>
  C1, as amended. For every record that fails validation, each of CreateRecord,
  UpdateRecord and DeleteRecord, called while it need not wait for the lock, returns
  after logging the failure and hands no request to the session. When the serialize flag
  evaluates true, the write lock is taken before the validation guard is reached and
  released on return: validation does not come before locking. The error value handed
  to the caller is left open.
\<close>

theorem invalid_record_not_sent:
  assumes "Validate record \<noteq> None" and "localLock recLock \<longrightarrow> \<not> held w"
  shows "(\<exists>r. CreateRecord p record zone recLock w =
            Returns (r, w\<lparr>trace := trace w @
              (if localLock recLock
               then [Locked, Logged Debug ''CreateRecord'',
                     Logged Error ''Record content not vaiid: %w'', Unlocked]
               else [Logged Debug ''CreateRecord'',
                     Logged Error ''Record content not vaiid: %w''])\<rparr>))
       \<and> (\<exists>r. UpdateRecord p record zone recLock w =
            Returns (r, w\<lparr>trace := trace w @
              (if localLock recLock
               then [Locked, Logged Debug ''UpdateRecord'',
                     Logged Error ''Record content not vaiid: %w'', Unlocked]
               else [Logged Debug ''UpdateRecord'',
                     Logged Error ''Record content not vaiid: %w''])\<rparr>))
       \<and> (\<exists>r. DeleteRecord p record zone recLock w =
            Returns (r, w\<lparr>trace := trace w @
              (if localLock recLock
               then [Locked, Logged Debug ''DeleteRecord'',
                     Logged Error ''Record content not vaiid: %w'', Unlocked]
               else [Logged Debug ''DeleteRecord'',
                     Logged Error ''Record content not vaiid: %w''])\<rparr>))"
proof (intro conjI)
  note free = assms(2)
  show "\<exists>r. CreateRecord p record zone recLock w =
            Returns (r, w\<lparr>trace := trace w @
              (if localLock recLock
               then [Locked, Logged Debug ''CreateRecord'',
                     Logged Error ''Record content not vaiid: %w'', Unlocked]
               else [Logged Debug ''CreateRecord'',
                     Logged Error ''Record content not vaiid: %w''])\<rparr>)"
    using CreateRecord_guarded [OF free] by blast
  show "\<exists>r. UpdateRecord p record zone recLock w =
            Returns (r, w\<lparr>trace := trace w @
              (if localLock recLock
               then [Locked, Logged Debug ''UpdateRecord'',
                     Logged Error ''Record content not vaiid: %w'', Unlocked]
               else [Logged Debug ''UpdateRecord'',
                     Logged Error ''Record content not vaiid: %w''])\<rparr>)"
    using UpdateRecord_guarded [OF free] by blast
  show "\<exists>r. DeleteRecord p record zone recLock w =
            Returns (r, w\<lparr>trace := trace w @
              (if localLock recLock
               then [Locked, Logged Debug ''DeleteRecord'',
                     Logged Error ''Record content not vaiid: %w'', Unlocked]
               else [Logged Debug ''DeleteRecord'',
                     Logged Error ''Record content not vaiid: %w''])\<rparr>)"
    using DeleteRecord_guarded [OF free] by blast
qed

theorem invalid_record_not_sent_witness:
  "Validate nameless \<noteq> None \<and> localLock [] \<and> \<not> held idle
   \<and> (\<exists>r. CreateRecord (replies 201) nameless ''example.com'' [] idle =
         Returns (r, \<lparr>held = False,
                      trace = [Locked, Logged Debug ''CreateRecord'',
                               Logged Error ''Record content not vaiid: %w'', Unlocked]\<rparr>))"
proof -
  have v: "Validate nameless \<noteq> None"
    by (simp add: Validate_nameless)
  have f: "localLock [] \<longrightarrow> \<not> held idle"
    by (simp add: idle_def)
  show ?thesis
    using v invalid_record_not_sent [OF v f, of "replies 201" "''example.com''"]
    by (simp add: idle_def)
qed

text \<open>
  C1 as stated fails: the record without a name fails validation, and CreateRecord with
  the default flag takes the lock and returns the nil error.
\<close>

theorem invalid_record_counterexample:
  "Validate nameless = Some (ValidationErrors [(''Name'', ''cannot be blank'')])
   \<and> CreateRecord (replies 201) nameless ''example.com'' [] idle =
       Returns (None, \<lparr>held = False,
                        trace = [Locked, Logged Debug ''CreateRecord'',
                                 Logged Error ''Record content not vaiid: %w'', Unlocked]\<rparr>)"
  by (simp add: Validate_nameless CreateRecord_def with_write_lock_def CreateRecord_body_guard
      Lock_def Unlock_def Log_def record_event_def idle_def)

text \<open>
  C2 (evaluation at the failing input). The record of the end-to-end scenario is valid,
  the session would answer 200, and CreateRecord returns the nil error: it stops at the
  guard, and no request is handed to the session.
\<close>

theorem CreateRecord_status_200:
  "Validate www = None
   \<and> CreateRecord (replies 200) www ''example.com'' [] idle =
       Returns (None, \<lparr>held = False,
                        trace = [Locked, Logged Debug ''CreateRecord'',
                                 Logged Error ''Record content not vaiid: %w'', Unlocked]\<rparr>)"
  by (simp add: Validate_www CreateRecord_guarded idle_def)

text \<open>
  C3 (evaluation at the failing inputs). For the same valid record, UpdateRecord with a
  session answering 500 and DeleteRecord with a session answering 404 return the nil
  error, without a request.
\<close>

theorem UpdateRecord_DeleteRecord_status:
  "Validate www = None
   \<and> UpdateRecord (replies 500) www ''example.com'' [] idle =
       Returns (None, \<lparr>held = False,
                        trace = [Locked, Logged Debug ''UpdateRecord'',
                                 Logged Error ''Record content not vaiid: %w'', Unlocked]\<rparr>)
   \<and> DeleteRecord (replies 404) www ''example.com'' [] idle =
       Returns (None, \<lparr>held = False,
                        trace = [Locked, Logged Debug ''DeleteRecord'',
                                 Logged Error ''Record content not vaiid: %w'', Unlocked]\<rparr>)"
  by (simp add: Validate_www UpdateRecord_guarded DeleteRecord_guarded idle_def)

text \<open>
  C4. A mutating call whose flag evaluates true, made while the lock is free, returns,
  and when it has returned the lock is free: the next \<open>Lock\<close> does not wait. The proof
  goes through \<open>with_write_lock_releases\<close>, which holds for whatever the body returns.
\<close>

theorem write_lock_released:
  assumes "localLock recLock" and "\<not> held w"
  shows "(\<exists>r w'. CreateRecord p record zone recLock w = Returns (r, w') \<and> \<not> held w'
             \<and> Lock w' \<noteq> Blocks)
       \<and> (\<exists>r w'. UpdateRecord p record zone recLock w = Returns (r, w') \<and> \<not> held w'
             \<and> Lock w' \<noteq> Blocks)
       \<and> (\<exists>r w'. DeleteRecord p record zone recLock w = Returns (r, w') \<and> \<not> held w'
             \<and> Lock w' \<noteq> Blocks)"
  unfolding CreateRecord_def UpdateRecord_def DeleteRecord_def
  using assms
  by (simp add: with_write_lock_releases held_CreateRecord_body held_UpdateRecord_body
      held_DeleteRecord_body)

theorem write_lock_released_witness:
  "localLock [True] \<and> \<not> held idle
   \<and> (\<exists>r w'. CreateRecord unreachable www ''example.com'' [True] idle = Returns (r, w')
          \<and> \<not> held w' \<and> Lock w' \<noteq> Blocks)
   \<and> (\<exists>r w'. DeleteRecord (replies 404) nameless ''example.com'' [True] idle = Returns (r, w')
          \<and> \<not> held w' \<and> Lock w' \<noteq> Blocks)"
proof -
  have flag: "localLock [True]"
    by simp
  have free: "\<not> held idle"
    by (simp add: idle_def)
  show ?thesis
    using flag free
      write_lock_released [OF flag free, of unreachable www "''example.com''"]
      write_lock_released [OF flag free, of "replies 404" nameless "''example.com''"]
    by blast
qed

text \<open>
  C5. The flag list decides: an empty list evaluates true, any other list evaluates to
  its first element, so a list that starts with false evaluates false. A mutating call
  whose flag evaluates false returns whether the lock is free or held by somebody else,
  with no lock operation in what it did and the lock as it found it. A call whose flag
  evaluates true, made while the lock is free, takes the lock once. Made while the lock
  is held, a call waits exactly when its flag evaluates true.
\<close>

theorem lock_taken_iff_flag:
  assumes "localLock recLock \<longrightarrow> \<not> held w"
  shows "localLock [] = True \<and> localLock (flag # rest) = flag
       \<and> (\<exists>r w'. CreateRecord p record zone recLock w = Returns (r, w')
             \<and> count_list (trace w') Locked
                 = count_list (trace w) Locked + (if localLock recLock then 1 else 0)
             \<and> count_list (trace w') Unlocked
                 = count_list (trace w) Unlocked + (if localLock recLock then 1 else 0)
             \<and> held w' = held w)
       \<and> (\<exists>r w'. UpdateRecord p record zone recLock w = Returns (r, w')
             \<and> count_list (trace w') Locked
                 = count_list (trace w) Locked + (if localLock recLock then 1 else 0)
             \<and> count_list (trace w') Unlocked
                 = count_list (trace w) Unlocked + (if localLock recLock then 1 else 0)
             \<and> held w' = held w)
       \<and> (\<exists>r w'. DeleteRecord p record zone recLock w = Returns (r, w')
             \<and> count_list (trace w') Locked
                 = count_list (trace w) Locked + (if localLock recLock then 1 else 0)
             \<and> count_list (trace w') Unlocked
                 = count_list (trace w) Unlocked + (if localLock recLock then 1 else 0)
             \<and> held w' = held w)
       \<and> (CreateRecord p record zone recLock (w\<lparr>held := True\<rparr>) = Blocks) = localLock recLock
       \<and> (UpdateRecord p record zone recLock (w\<lparr>held := True\<rparr>) = Blocks) = localLock recLock
       \<and> (DeleteRecord p record zone recLock (w\<lparr>held := True\<rparr>) = Blocks) = localLock recLock"
proof -
  have flags: "localLock [] = True \<and> localLock (flag # rest) = flag"
    by simp
  have c: "\<exists>r w'. CreateRecord p record zone recLock w = Returns (r, w')
             \<and> count_list (trace w') Locked
                 = count_list (trace w) Locked + (if localLock recLock then 1 else 0)
             \<and> count_list (trace w') Unlocked
                 = count_list (trace w) Unlocked + (if localLock recLock then 1 else 0)
             \<and> held w' = held w"
    by (simp add: CreateRecord_guarded [OF assms])
  have u: "\<exists>r w'. UpdateRecord p record zone recLock w = Returns (r, w')
             \<and> count_list (trace w') Locked
                 = count_list (trace w) Locked + (if localLock recLock then 1 else 0)
             \<and> count_list (trace w') Unlocked
                 = count_list (trace w) Unlocked + (if localLock recLock then 1 else 0)
             \<and> held w' = held w"
    by (simp add: UpdateRecord_guarded [OF assms])
  have d: "\<exists>r w'. DeleteRecord p record zone recLock w = Returns (r, w')
             \<and> count_list (trace w') Locked
                 = count_list (trace w) Locked + (if localLock recLock then 1 else 0)
             \<and> count_list (trace w') Unlocked
                 = count_list (trace w) Unlocked + (if localLock recLock then 1 else 0)
             \<and> held w' = held w"
    by (simp add: DeleteRecord_guarded [OF assms])
  have cb: "(CreateRecord p record zone recLock (w\<lparr>held := True\<rparr>) = Blocks) = localLock recLock"
    by (simp add: CreateRecord_def with_write_lock_def Lock_def)
  have ub: "(UpdateRecord p record zone recLock (w\<lparr>held := True\<rparr>) = Blocks) = localLock recLock"
    by (simp add: UpdateRecord_def with_write_lock_def Lock_def)
  have db: "(DeleteRecord p record zone recLock (w\<lparr>held := True\<rparr>) = Blocks) = localLock recLock"
    by (simp add: DeleteRecord_def with_write_lock_def Lock_def)
  from flags c u d cb ub db show ?thesis
    by blast
qed

theorem lock_taken_iff_flag_witness:
  "localLock [] \<and> \<not> held idle \<and> \<not> localLock [False] \<and> held busy
   \<and> (\<exists>r w'. CreateRecord (replies 201) www ''example.com'' [] idle = Returns (r, w')
          \<and> count_list (trace w') Locked = 1 \<and> count_list (trace w') Unlocked = 1
          \<and> held w' = False)
   \<and> (\<exists>r w'. CreateRecord (replies 201) www ''example.com'' [False] busy = Returns (r, w')
          \<and> count_list (trace w') Locked = 0 \<and> count_list (trace w') Unlocked = 0
          \<and> held w' = True)
   \<and> CreateRecord (replies 201) www ''example.com'' [] busy = Blocks
   \<and> CreateRecord (replies 201) www ''example.com'' [False] busy \<noteq> Blocks"
proof -
  have free: "localLock [] \<longrightarrow> \<not> held idle"
    by (simp add: idle_def)
  have off: "localLock [False] \<longrightarrow> \<not> held busy"
    by simp
  have i: "count_list (trace idle) Locked = 0 \<and> count_list (trace idle) Unlocked = 0
           \<and> held idle = False"
    by (simp add: idle_def)
  have b: "count_list (trace busy) Locked = 0 \<and> count_list (trace busy) Unlocked = 0
           \<and> held busy = True \<and> busy\<lparr>held := True\<rparr> = busy"
    by (simp add: busy_def)
  have ib: "idle\<lparr>held := True\<rparr> = busy"
    by (simp add: idle_def busy_def)
  show ?thesis
    using free off i b ib
      lock_taken_iff_flag [OF free, of True "[]" "replies 201" www "''example.com''"]
      lock_taken_iff_flag [OF off, of True "[]" "replies 201" www "''example.com''"]
    by simp
qed

text \<open>
  C6 (evaluation at the failing input). With a session whose \<open>Exec\<close> fails with a cause
  and the valid record, CreateRecord and DeleteRecord return the nil error; \<open>Exec\<close> is
  not called. The lock is released.
\<close>

theorem unreachable_session_returns_nil:
  "Validate www = None
   \<and> Exec unreachable \<lparr>Method = ''POST'', URL = record_path ''example.com'' www,
                        Body = Some (Name www)\<rparr> = Inl (Cause ''connection refused'')
   \<and> CreateRecord unreachable www ''example.com'' [] idle =
       Returns (None, \<lparr>held = False,
                        trace = [Locked, Logged Debug ''CreateRecord'',
                                 Logged Error ''Record content not vaiid: %w'', Unlocked]\<rparr>)
   \<and> DeleteRecord unreachable www ''example.com'' [] idle =
       Returns (None, \<lparr>held = False,
                        trace = [Locked, Logged Debug ''DeleteRecord'',
                                 Logged Error ''Record content not vaiid: %w'', Unlocked]\<rparr>)"
  by (simp add: Validate_www CreateRecord_guarded DeleteRecord_guarded idle_def
      unreachable_def session_double_def)

text \<open>
  C7, as amended. \<open>Validate\<close> returns nil exactly for the records with a non-empty name,
  a non-empty type, a time-to-live different from zero and at least one target value.
  It is a function of the record alone: it neither reads nor changes the process state.
\<close>

theorem Validate_nil_iff:
  "Validate rec = None \<longleftrightarrow>
     Name rec \<noteq> [] \<and> RecordType rec \<noteq> [] \<and> TTL rec \<noteq> 0 \<and> Target rec \<noteq> []"
  by (simp add: Validate_defs)

theorem Validate_nil_iff_witness:
  "Validate www = None
   \<and> Name www \<noteq> [] \<and> RecordType www \<noteq> [] \<and> TTL www \<noteq> 0 \<and> Target www \<noteq> []"
  using Validate_nil_iff [of www]
  by (simp add: www_def)

text \<open>
  C7 as stated fails: a record with a negative time-to-live passes validation.
\<close>

theorem negative_TTL_counterexample:
  "Validate \<lparr>Name = ''www.example.com'', RecordType = ''A'', TTL = - 1, Active = False,
             Target = [''192.0.2.1'']\<rparr> = None
   \<and> \<not> 0 < TTL \<lparr>Name = ''www.example.com'', RecordType = ''A'', TTL = - 1, Active = False,
                   Target = [''192.0.2.1'']\<rparr>"
  by (simp add: Validate_defs)

text \<open>
  C9. For every record, valid or not, RecordToMap returns the nil map: the guard tests
  the method value of \<open>Validate\<close>, which is not nil, so the error branch is taken and the
  error is logged.
\<close>

theorem RecordToMap_returns_nil:
  "\<not> is_nil (method_value Validate record)
   \<and> RecordToMap record w =
       (None, w\<lparr>trace := trace w @ [Logged Debug ''RecordToMap'',
                                    Logged Error ''Record to map failed. %w'']\<rparr>)"
  by (simp add: RecordToMap_def method_value_not_nil Log_def record_event_def)

text \<open>
  C10. NewRecordBody returns a record with the name of its argument and the zero value
  in every other field.
\<close>

theorem NewRecordBody_keeps_only_Name:
  "Name (fst (NewRecordBody params w)) = Name params
   \<and> RecordType (fst (NewRecordBody params w)) = []
   \<and> TTL (fst (NewRecordBody params w)) = 0
   \<and> Active (fst (NewRecordBody params w)) = False
   \<and> Target (fst (NewRecordBody params w)) = []"
  by (simp add: NewRecordBody_def)
end
